theory Spec2Isabelle
  imports Complex_Main
begin

section \<open>JavaScript numbers and values\<close>

text \<open>
  A JavaScript number is NaN, one of the two infinities, or a finite value. Finite
  values are modelled as exact reals: the rounding of IEEE doubles, their overflow to
  an infinity and the sign of zero are not modelled. Every arithmetic operator that \<^verbatim>\<open>transition.js\<close> applies to numbers is
  given below with its behaviour on NaN and on the infinities.
\<close>

datatype jsnum = NaN | PosInf | NegInf | Fin real

fun js_neg :: "jsnum \<Rightarrow> jsnum" where
  "js_neg NaN = NaN"
| "js_neg PosInf = NegInf"
| "js_neg NegInf = PosInf"
| "js_neg (Fin x) = Fin (- x)"

definition signed_inf :: "bool \<Rightarrow> jsnum" where
  "signed_inf positive = (if positive then PosInf else NegInf)"

fun js_add :: "jsnum \<Rightarrow> jsnum \<Rightarrow> jsnum" where
  "js_add NaN _ = NaN"
| "js_add _ NaN = NaN"
| "js_add PosInf NegInf = NaN"
| "js_add NegInf PosInf = NaN"
| "js_add PosInf _ = PosInf"
| "js_add NegInf _ = NegInf"
| "js_add (Fin x) PosInf = PosInf"
| "js_add (Fin x) NegInf = NegInf"
| "js_add (Fin x) (Fin y) = Fin (x + y)"

definition js_sub :: "jsnum \<Rightarrow> jsnum \<Rightarrow> jsnum" where
  "js_sub a b = js_add a (js_neg b)"

fun js_mul :: "jsnum \<Rightarrow> jsnum \<Rightarrow> jsnum" where
  "js_mul NaN _ = NaN"
| "js_mul _ NaN = NaN"
| "js_mul (Fin x) (Fin y) = Fin (x * y)"
| "js_mul (Fin x) PosInf = (if x = 0 then NaN else signed_inf (0 < x))"
| "js_mul (Fin x) NegInf = (if x = 0 then NaN else signed_inf (x < 0))"
| "js_mul PosInf (Fin y) = (if y = 0 then NaN else signed_inf (0 < y))"
| "js_mul NegInf (Fin y) = (if y = 0 then NaN else signed_inf (y < 0))"
| "js_mul PosInf PosInf = PosInf"
| "js_mul NegInf NegInf = PosInf"
| "js_mul PosInf NegInf = NegInf"
| "js_mul NegInf PosInf = NegInf"

text \<open>
  Division. The source only divides by the literals 2 and 100; the zero divisor is
  given for completeness and taken as positive zero.
\<close>

fun js_div :: "jsnum \<Rightarrow> jsnum \<Rightarrow> jsnum" where
  "js_div NaN _ = NaN"
| "js_div _ NaN = NaN"
| "js_div (Fin x) (Fin y) =
     (if y = 0 then (if x = 0 then NaN else signed_inf (0 < x)) else Fin (x / y))"
| "js_div (Fin x) _ = Fin 0"
| "js_div PosInf (Fin y) = signed_inf (0 \<le> y)"
| "js_div NegInf (Fin y) = signed_inf (y < 0)"
| "js_div _ _ = NaN"

text \<open>The comparison \<^verbatim>\<open>a > b\<close>: false as soon as one side is NaN.\<close>

fun js_gt :: "jsnum \<Rightarrow> jsnum \<Rightarrow> bool" where
  "js_gt NaN _ = False"
| "js_gt _ NaN = False"
| "js_gt PosInf PosInf = False"
| "js_gt PosInf _ = True"
| "js_gt NegInf _ = False"
| "js_gt (Fin x) PosInf = False"
| "js_gt (Fin x) NegInf = True"
| "js_gt (Fin x) (Fin y) = (y < x)"

definition is_finite :: "jsnum \<Rightarrow> bool" where
  "is_finite n = (case n of Fin _ \<Rightarrow> True | _ \<Rightarrow> False)"

subsection \<open>Numeric literals in strings\<close>

text \<open>
  \<^verbatim>\<open>parseFloat\<close> skips leading white space and converts the longest prefix that is a
  \<^verbatim>\<open>StrDecimalLiteral\<close> (optional sign, then \<^verbatim>\<open>Infinity\<close> or decimal digits with an
  optional fraction and exponent); with no such prefix the result is NaN. Strings are
  lists of 8-bit characters, so only the ASCII white space characters are recognised.
\<close>

definition isWhite :: "char \<Rightarrow> bool" where
  "isWhite c = (c \<in> set [CHR 0x09, CHR 0x0A, CHR 0x0B, CHR 0x0C, CHR 0x0D, CHR 0x20])"

definition isDigit :: "char \<Rightarrow> bool" where
  "isDigit c = (c \<in> set ''0123456789'')"

definition digitVal :: "char \<Rightarrow> nat" where
  "digitVal c = of_char c - 48"

definition digitsVal :: "string \<Rightarrow> nat" where
  "digitsVal ds = foldl (\<lambda>a c. 10 * a + digitVal c) 0 ds"

definition pow10 :: "int \<Rightarrow> real" where
  "pow10 e = (if 0 \<le> e then 10 ^ nat e else 1 / 10 ^ nat (- e))"

text \<open>An \<^verbatim>\<open>ExponentPart\<close> at the head of the text, if there is a complete one.\<close>

definition scanExponent :: "string \<Rightarrow> int \<times> string" where
  "scanExponent s =
     (case s of
        [] \<Rightarrow> (0, s)
      | c # r \<Rightarrow>
          if c = CHR ''e'' \<or> c = CHR ''E'' then
            (let (sg, r') =
                   (case r of
                      [] \<Rightarrow> (1, r)
                    | d # r2 \<Rightarrow>
                        if d = CHR ''+'' then (1, r2)
                        else if d = CHR ''-'' then (- 1, r2)
                        else (1, r));
                 ds = takeWhile isDigit r'
             in if ds = [] then (0, s)
                else (sg * int (digitsVal ds), dropWhile isDigit r'))
          else (0, s))"

definition scanUnsigned :: "string \<Rightarrow> (jsnum \<times> string) option" where
  "scanUnsigned s =
     (if take 8 s = ''Infinity'' then Some (PosInf, drop 8 s)
      else
        let ip = takeWhile isDigit s;
            r1 = dropWhile isDigit s;
            (fp, r2) =
              (case r1 of
                 [] \<Rightarrow> ([], r1)
               | c # r \<Rightarrow>
                   if c = CHR ''.'' then (takeWhile isDigit r, dropWhile isDigit r)
                   else ([], r1))
        in if ip = [] \<and> fp = [] then None
           else
             let (e, r3) = scanExponent r2
             in Some (Fin (real (digitsVal (ip @ fp)) / 10 ^ length fp * pow10 e), r3))"

definition scanDecimal :: "string \<Rightarrow> (jsnum \<times> string) option" where
  "scanDecimal s =
     (case s of
        [] \<Rightarrow> None
      | c # r \<Rightarrow>
          if c = CHR ''+'' then scanUnsigned r
          else if c = CHR ''-'' then map_option (\<lambda>(v, r'). (js_neg v, r')) (scanUnsigned r)
          else scanUnsigned s)"

definition parseFloat_str :: "string \<Rightarrow> jsnum" where
  "parseFloat_str s =
     (case scanDecimal (dropWhile isWhite s) of None \<Rightarrow> NaN | Some (v, _) \<Rightarrow> v)"

text \<open>
  \<^verbatim>\<open>parseFloat(link.dataset.x)\<close>: a missing attribute reads as \<^verbatim>\<open>undefined\<close>, which
  \<^verbatim>\<open>parseFloat\<close> first converts to the string \<^verbatim>\<open>"undefined"\<close>.
\<close>

definition parseFloat :: "string option \<Rightarrow> jsnum" where
  "parseFloat a = (case a of None \<Rightarrow> parseFloat_str ''undefined'' | Some s \<Rightarrow> parseFloat_str s)"

text \<open>
  \<^verbatim>\<open>ToNumber\<close> of a string (used when a stored field is a string): white space is
  trimmed on both sides, the empty string is 0, the whole rest must be a decimal
  literal or a hexadecimal, octal or binary integer literal, otherwise NaN.
\<close>

definition radixDigit :: "nat \<Rightarrow> char \<Rightarrow> nat option" where
  "radixDigit b c =
     (let n = of_char c;
          v = (if 48 \<le> n \<and> n \<le> 57 then Some (n - 48)
               else if 97 \<le> n \<and> n \<le> 102 then Some (n - 87)
               else if 65 \<le> n \<and> n \<le> 70 then Some (n - 55)
               else None)
      in case v of None \<Rightarrow> None | Some d \<Rightarrow> if d < b then Some d else None)"

fun radixVal :: "nat \<Rightarrow> nat \<Rightarrow> string \<Rightarrow> nat option" where
  "radixVal b acc [] = Some acc"
| "radixVal b acc (c # cs) =
     (case radixDigit b c of None \<Rightarrow> None | Some d \<Rightarrow> radixVal b (b * acc + d) cs)"

definition nonDecimal :: "string \<Rightarrow> jsnum option" where
  "nonDecimal t =
     (case t of
        c0 # c1 # d # ds \<Rightarrow>
          if c0 = CHR ''0'' then
            (let b = (if c1 = CHR ''x'' \<or> c1 = CHR ''X'' then 16
                      else if c1 = CHR ''o'' \<or> c1 = CHR ''O'' then 8
                      else if c1 = CHR ''b'' \<or> c1 = CHR ''B'' then 2
                      else (0::nat))
             in if b = 0 then None
                else Some (case radixVal b 0 (d # ds) of None \<Rightarrow> NaN | Some n \<Rightarrow> Fin (real n)))
          else None
      | _ \<Rightarrow> None)"

definition StringToNumber :: "string \<Rightarrow> jsnum" where
  "StringToNumber s =
     (let t = rev (dropWhile isWhite (rev (dropWhile isWhite s)))
      in if t = [] then Fin 0
         else case nonDecimal t of
                Some v \<Rightarrow> v
              | None \<Rightarrow> (case scanDecimal t of Some (v, []) \<Rightarrow> v | _ \<Rightarrow> NaN))"

subsection \<open>Values read back from storage\<close>

text \<open>
  The fields of a stored record are JSON scalars; a field that is missing reads as
  \<^verbatim>\<open>undefined\<close>. Nested arrays and objects as field values are not modelled.
\<close>

datatype jsval = Undefined | Null | Bool bool | Number jsnum | Str string

fun ToBoolean :: "jsval \<Rightarrow> bool" where
  "ToBoolean Undefined = False"
| "ToBoolean Null = False"
| "ToBoolean (Bool b) = b"
| "ToBoolean (Number n) = (n \<noteq> NaN \<and> n \<noteq> Fin 0)"
| "ToBoolean (Str s) = (s \<noteq> [])"

fun ToNumber :: "jsval \<Rightarrow> jsnum" where
  "ToNumber Undefined = NaN"
| "ToNumber Null = Fin 0"
| "ToNumber (Bool b) = Fin (if b then 1 else 0)"
| "ToNumber (Number n) = n"
| "ToNumber (Str s) = StringToNumber s"

text \<open>The operator \<^verbatim>\<open>a || b\<close>.\<close>

definition js_or :: "jsval \<Rightarrow> jsval \<Rightarrow> jsval" where
  "js_or a b = (if ToBoolean a then a else b)"

definition js_or_num :: "jsnum \<Rightarrow> jsnum \<Rightarrow> jsnum" where
  "js_or_num n d = (if ToBoolean (Number n) then n else d)"

text \<open>
  What \<^verbatim>\<open>JSON.parse\<close> returns for the stored text: a scalar, or an object given by its
  own properties (keys distinct). Top-level arrays are not modelled.
\<close>

datatype parsed = Prim jsval | Object "(string \<times> jsval) list"

text \<open>Reading a property of \<^verbatim>\<open>null\<close> or \<^verbatim>\<open>undefined\<close> throws a TypeError.\<close>

definition nullish :: "parsed \<Rightarrow> bool" where
  "nullish d = (d = Prim Null \<or> d = Prim Undefined)"

text \<open>
  \<^verbatim>\<open>data.k\<close> for a value that is not nullish, for the property names the script
  reads (none of them is defined on the prototypes of the scalars).
\<close>

definition getprop :: "parsed \<Rightarrow> string \<Rightarrow> jsval" where
  "getprop d k =
     (case d of
        Prim _ \<Rightarrow> Undefined
      | Object kvs \<Rightarrow> (case map_of kvs k of None \<Rightarrow> Undefined | Some v \<Rightarrow> v))"

datatype error = TypeError | SyntaxError

text \<open>
  The text held by the storage key \<^verbatim>\<open>transitionData\<close> is represented by what
  \<^verbatim>\<open>JSON.parse\<close> makes of it: \<open>JsonText v\<close> is a text that parses to \<open>v\<close>,
  \<open>NonJsonText s\<close> is the text \<open>s\<close>, which \<^verbatim>\<open>JSON.parse\<close> rejects with a SyntaxError
  (the empty string is such a text).
\<close>

datatype item = JsonText parsed | NonJsonText string

definition JSON_parse :: "item \<Rightarrow> error + parsed" where
  "JSON_parse it = (case it of JsonText v \<Rightarrow> Inr v | NonJsonText _ \<Rightarrow> Inl SyntaxError)"

text \<open>\<^verbatim>\<open>JSON.stringify\<close> writes a number that is not finite as \<^verbatim>\<open>null\<close>.\<close>

definition json_number :: "jsnum \<Rightarrow> jsval" where
  "json_number n = (if is_finite n then Number n else Null)"

section \<open>The document and the LogoTransition instance\<close>

record DOMRect =
  left :: real
  top' :: real
  width :: real
  height :: real

text \<open>The four lengths of a \<^verbatim>\<open>cssText\<close> or of a keyframe, before formatting as pixels.\<close>

record box =
  css_left :: jsnum
  css_top :: jsnum
  css_width :: jsnum
  css_height :: jsnum

text \<open>
  The \<^verbatim>\<open>.logo-wrapper\<close> inside a link: the \<^verbatim>\<open>outerHTML\<close> of its first \<^verbatim>\<open>svg\<close>, if
  it has one, and its bounding rectangle.
\<close>

record wrapper =
  svg :: "string option"
  bounding :: DOMRect

text \<open>A \<^verbatim>\<open>.service-link[data-service]\<close> element; an attribute may be missing.\<close>

record link =
  href :: "string option"
  data_service :: string
  data_color :: "string option"
  data_scale :: "string option"
  data_offsetX :: "string option"
  data_offsetY :: "string option"
  logo_wrapper :: "wrapper option"

record serviceData =
  serviceName :: string
  fillColor :: string
  svgContent :: string
  rect :: DOMRect
  scale :: jsnum
  offsetX :: jsnum
  offsetY :: jsnum

text \<open>\<^verbatim>\<open>this.defaults\<close> and \<^verbatim>\<open>this.config\<close> of the constructor.\<close>

definition defaults_scale :: jsnum where "defaults_scale = Fin 15"
definition defaults_offsetX :: jsnum where "defaults_offsetX = Fin 0"
definition defaults_offsetY :: jsnum where "defaults_offsetY = Fin 0"
definition expandDuration :: nat where "expandDuration = 800"
definition shrinkDuration :: nat where "shrinkDuration = 600"

text \<open>
  \<^verbatim>\<open>getServiceData\<close>: a link without a \<^verbatim>\<open>.logo-wrapper\<close>, or whose wrapper has no
  \<^verbatim>\<open>svg\<close>, makes it throw a TypeError (a method call or property read on \<^verbatim>\<open>null\<close>).
\<close>

definition getServiceData :: "link \<Rightarrow> error + serviceData" where
  "getServiceData lnk =
     (case logo_wrapper lnk of
        None \<Rightarrow> Inl TypeError
      | Some logoWrapper \<Rightarrow>
          let fill = (case data_color lnk of
                        None \<Rightarrow> ''#6366f1''
                      | Some c \<Rightarrow> if c \<noteq> [] then c else ''#6366f1'');
              sc = js_or_num (parseFloat (data_scale lnk)) defaults_scale;
              ox = js_or_num (parseFloat (data_offsetX lnk)) defaults_offsetX;
              oy = js_or_num (parseFloat (data_offsetY lnk)) defaults_offsetY
          in (case svg logoWrapper of
                None \<Rightarrow> Inl TypeError
              | Some html \<Rightarrow>
                  Inr \<lparr> serviceName = data_service lnk, fillColor = fill, svgContent = html,
                        rect = bounding logoWrapper, scale = sc, offsetX = ox, offsetY = oy \<rparr>))"

text \<open>
  The second keyframe of \<^verbatim>\<open>expandLogo\<close> (and of \<^verbatim>\<open>previewTransition\<close>, which repeats
  the computation): the full-bleed rectangle, for a viewport of \<open>vw\<close> by \<open>vh\<close>.
\<close>

definition expandLogo_target :: "serviceData \<Rightarrow> real \<Rightarrow> real \<Rightarrow> box" where
  "expandLogo_target sd vw vh =
     (let logoSize = Fin (max (width (rect sd)) (height (rect sd)));
          targetScale = scale sd;
          finalSize = js_mul logoSize targetScale;
          offsetPixelsX = js_mul (js_div (offsetX sd) (Fin 100)) (Fin vw);
          offsetPixelsY = js_mul (js_div (offsetY sd) (Fin 100)) (Fin vh);
          centerX = js_add (js_sub (js_div (Fin vw) (Fin 2)) (js_div finalSize (Fin 2))) offsetPixelsX;
          centerY = js_add (js_sub (js_div (Fin vh) (Fin 2)) (js_div finalSize (Fin 2))) offsetPixelsY
      in \<lparr> css_left = centerX, css_top = centerY, css_width = finalSize, css_height = finalSize \<rparr>)"

definition rect_box :: "DOMRect \<Rightarrow> box" where
  "rect_box r = \<lparr> css_left = Fin (left r), css_top = Fin (top' r),
                  css_width = Fin (width r), css_height = Fin (height r) \<rparr>"

text \<open>
  The rectangle computed by \<^verbatim>\<open>createExpandedOverlay\<close> and again by \<^verbatim>\<open>shrinkLogo\<close>
  from the stored record.
\<close>

definition expanded_box :: "parsed \<Rightarrow> real \<Rightarrow> real \<Rightarrow> box" where
  "expanded_box data vw vh =
     (let logoSize = Fin 64;
          sc = js_or (getprop data ''scale'') (Number defaults_scale);
          expandedSize = js_mul logoSize (ToNumber sc);
          offsetPixelsX =
            js_mul (js_div (ToNumber (js_or (getprop data ''offsetX'') (Number (Fin 0)))) (Fin 100)) (Fin vw);
          offsetPixelsY =
            js_mul (js_div (ToNumber (js_or (getprop data ''offsetY'') (Number (Fin 0)))) (Fin 100)) (Fin vh);
          centerX = js_add (js_sub (js_div (Fin vw) (Fin 2)) (js_div expandedSize (Fin 2))) offsetPixelsX;
          centerY = js_add (js_sub (js_div (Fin vh) (Fin 2)) (js_div expandedSize (Fin 2))) offsetPixelsY
      in \<lparr> css_left = centerX, css_top = centerY,
           css_width = expandedSize, css_height = expandedSize \<rparr>)"

text \<open>An overlay clone: the element behind \<^verbatim>\<open>this.transitionLogo\<close>.\<close>

record clone =
  cid :: nat
  innerHTML :: jsval
  style :: box

record animation =
  target :: nat
  from_box :: box
  to_box :: box
  duration :: nat

text \<open>
  The completion signals the script is waiting for. Each one stands for a suspended
  \<^verbatim>\<open>await\<close> or a pending \<^verbatim>\<open>onfinish\<close> callback, with what its continuation needs.
  The durations are recorded but time is not modelled: pending signals may fire in any
  order, and a signal stays pending until it fires, also when the clone it animates
  has been detached in the meantime.
\<close>

datatype task =
    ExpandFinish animation "string option"
  | SettleDelay parsed
  | ShrinkFinish animation
  | FadeFinish nat
  | PreviewExpandFinish animation
  | PreviewHold box box
  | PreviewShrinkFinish animation

record hero =
  opacity :: string
  hero_visible :: bool
  hero_rect :: DOMRect

text \<open>
  The document as the browser hands it over: the storage key, the current location,
  the viewport, and the first \<^verbatim>\<open>.service-page\<close> (is it marked visible) and
  \<^verbatim>\<open>.hero-logo\<close> elements, if any.
\<close>

record document =
  storage :: "item option"
  location :: string
  innerWidth :: real
  innerHeight :: real
  servicePage :: "bool option"
  heroLogo :: "hero option"

text \<open>
  The document together with what the script adds: the state of \<^verbatim>\<open>body\<close>, the fields
  of the instance, the children of the overlay element, the pending completion signals,
  whether the click listeners are attached, and the exceptions that escaped a handler.
\<close>

record page = document +
  body_transitioning :: bool
  body_background :: jsval
  transition_color :: "string option"
  overlay :: "clone list"
  transitionLogo :: "nat option"
  isTransitioning :: bool
  created :: nat
  pending :: "task list"
  listening :: bool
  uncaught :: "error list"

section \<open>The operations of \<^verbatim>\<open>transition.js\<close>\<close>

text \<open>
  The constructor: the fields of a new instance, on the document as loaded. No
  completion signal is pending and no listener is attached yet.
\<close>

definition new_instance :: "document \<Rightarrow> page" where
  "new_instance d =
     \<lparr> storage = storage d, location = location d,
       innerWidth = innerWidth d, innerHeight = innerHeight d,
       servicePage = servicePage d, heroLogo = heroLogo d,
       body_transitioning = False, body_background = Str [], transition_color = None,
       overlay = [], transitionLogo = None, isTransitioning = False,
       created = 0, pending = [], listening = False, uncaught = [] \<rparr>"

definition createOverlay :: "page \<Rightarrow> page" where
  "createOverlay p = p\<lparr> overlay := [] \<rparr>"

text \<open>
  \<^verbatim>\<open>this.transitionLogo.animate(...)\<close> together with the registration of its
  completion callback: a TypeError when the reference is \<^verbatim>\<open>null\<close>.
\<close>

definition animate_logo :: "(nat \<Rightarrow> task) \<Rightarrow> page \<Rightarrow> page" where
  "animate_logo k p =
     (case transitionLogo p of
        None \<Rightarrow> p\<lparr> uncaught := uncaught p @ [TypeError] \<rparr>
      | Some i \<Rightarrow> p\<lparr> pending := pending p @ [k i] \<rparr>)"

definition createTransitionLogo :: "serviceData \<Rightarrow> page \<Rightarrow> page" where
  "createTransitionLogo sd p =
     (let i = created p
      in p\<lparr> created := Suc i,
            overlay := overlay p @ [\<lparr> cid = i, innerHTML = Str (svgContent sd),
                                      style = rect_box (rect sd) \<rparr>],
            transitionLogo := Some i \<rparr>)"

text \<open>
  \<^verbatim>\<open>expandLogo\<close> up to the creation of its promise. The continuation of the
  \<^verbatim>\<open>await\<close> in \<^verbatim>\<open>startTransition\<close>, the assignment of \<open>targetUrl\<close>, travels with the
  completion signal.
\<close>

definition expandLogo :: "serviceData \<Rightarrow> string option \<Rightarrow> page \<Rightarrow> page" where
  "expandLogo sd targetUrl p =
     animate_logo
       (\<lambda>i. ExpandFinish \<lparr> target = i, from_box = rect_box (rect sd),
                            to_box = expandLogo_target sd (innerWidth p) (innerHeight p),
                            duration = expandDuration \<rparr> targetUrl) p"

text \<open>The record that \<^verbatim>\<open>startTransition\<close> passes to \<^verbatim>\<open>JSON.stringify\<close>, as stored.\<close>

definition handoff_record :: "serviceData \<Rightarrow> int \<Rightarrow> item" where
  "handoff_record sd now =
     JsonText (Object
       [(''fillColor'', Str (fillColor sd)),
        (''serviceName'', Str (serviceName sd)),
        (''svgContent'', Str (svgContent sd)),
        (''scale'', json_number (scale sd)),
        (''offsetX'', json_number (offsetX sd)),
        (''offsetY'', json_number (offsetY sd)),
        (''timestamp'', Number (Fin (of_int now)))])"

text \<open>\<^verbatim>\<open>startTransition\<close> up to its \<^verbatim>\<open>await\<close>; \<open>now\<close> is the value of \<^verbatim>\<open>Date.now()\<close>.\<close>

definition startTransition :: "link \<Rightarrow> string option \<Rightarrow> serviceData \<Rightarrow> int \<Rightarrow> page \<Rightarrow> page" where
  "startTransition lnk targetUrl sd now p =
     (let p1 = p\<lparr> isTransitioning := True, body_transitioning := True,
                  transition_color := Some (fillColor sd),
                  body_background := Str (fillColor sd),
                  storage := Some (handoff_record sd now) \<rparr>;
          p2 = createTransitionLogo sd p1
      in expandLogo sd targetUrl p2)"

text \<open>The click listener installed by \<^verbatim>\<open>attachLinkHandlers\<close>.\<close>

definition clickHandler :: "link \<Rightarrow> int \<Rightarrow> page \<Rightarrow> page" where
  "clickHandler lnk now p =
     (if isTransitioning p then p
      else case getServiceData lnk of
             Inl e \<Rightarrow> p\<lparr> uncaught := uncaught p @ [e] \<rparr>
           | Inr sd \<Rightarrow> startTransition lnk (href lnk) sd now p)"

definition cleanup :: "page \<Rightarrow> page" where
  "cleanup p =
     (let p1 = (case transitionLogo p of
                  None \<Rightarrow> p
                | Some i \<Rightarrow> p\<lparr> overlay := filter (\<lambda>c. cid c \<noteq> i) (overlay p),
                               transitionLogo := None \<rparr>)
      in p1\<lparr> isTransitioning := False \<rparr>)"

definition createExpandedOverlay :: "parsed \<Rightarrow> page \<Rightarrow> page" where
  "createExpandedOverlay data p =
     (let i = created p
      in p\<lparr> created := Suc i,
            overlay := overlay p @ [\<lparr> cid = i, innerHTML = getprop data ''svgContent'',
                                      style = expanded_box data (innerWidth p) (innerHeight p) \<rparr>],
            transitionLogo := Some i \<rparr>)"

text \<open>
  \<^verbatim>\<open>completeTransition\<close> up to \<^verbatim>\<open>await this.delay(50)\<close>. It is only called with both
  elements present; \<open>body_background\<close> records the value assigned.
\<close>

definition completeTransition :: "parsed \<Rightarrow> page \<Rightarrow> page" where
  "completeTransition data p =
     (let p1 = p\<lparr> body_transitioning := True,
                  body_background := getprop data ''fillColor'',
                  heroLogo := map_option (\<lambda>h. h\<lparr> opacity := ''0'' \<rparr>) (heroLogo p) \<rparr>;
          p2 = createExpandedOverlay data p1
      in p2\<lparr> pending := pending p2 @ [SettleDelay data] \<rparr>)"

definition shrinkLogo :: "DOMRect \<Rightarrow> parsed \<Rightarrow> page \<Rightarrow> page" where
  "shrinkLogo targetRect data p =
     animate_logo
       (\<lambda>i. ShrinkFinish \<lparr> target = i,
                            from_box = expanded_box data (innerWidth p) (innerHeight p),
                            to_box = rect_box targetRect,
                            duration = shrinkDuration \<rparr>) p"

text \<open>The rest of \<^verbatim>\<open>completeTransition\<close>, after \<^verbatim>\<open>shrinkLogo\<close> has resolved.\<close>

definition completeTransition_reveal :: "page \<Rightarrow> page" where
  "completeTransition_reveal p =
     (let p1 = p\<lparr> heroLogo := map_option (\<lambda>h. h\<lparr> hero_visible := True, opacity := [] \<rparr>) (heroLogo p),
                  servicePage := map_option (\<lambda>_. True) (servicePage p),
                  body_background := Str [] \<rparr>;
          p2 = cleanup p1
      in p2\<lparr> body_transitioning := False \<rparr>)"

text \<open>
  Lines 178 to 190 of \<^verbatim>\<open>checkIncomingTransition\<close>: the read of the storage key. The
  result is the page after the read and the value of \<open>data\<close> with which the function
  goes on, if it goes on.
\<close>

definition checkIncomingTransition_read :: "int \<Rightarrow> page \<Rightarrow> error + (page \<times> parsed option)" where
  "checkIncomingTransition_read now p =
     (case storage p of
        None \<Rightarrow> Inr (p, None)
      | Some transitionData \<Rightarrow>
          if transitionData = NonJsonText [] then Inr (p, None)
          else (case JSON_parse transitionData of
                  Inl e \<Rightarrow> Inl e
                | Inr data \<Rightarrow>
                    if nullish data then Inl TypeError
                    else
                      let timeSinceTransition =
                            js_sub (Fin (of_int now)) (ToNumber (getprop data ''timestamp''))
                      in if js_gt timeSinceTransition (Fin 3000)
                         then Inr (p\<lparr> storage := None \<rparr>, None)
                         else Inr (p\<lparr> storage := None \<rparr>, Some data)))"

definition checkIncomingTransition :: "int \<Rightarrow> page \<Rightarrow> error + page" where
  "checkIncomingTransition now p =
     (case checkIncomingTransition_read now p of
        Inl e \<Rightarrow> Inl e
      | Inr (p', None) \<Rightarrow> Inr p'
      | Inr (p', Some data) \<Rightarrow>
          if servicePage p' \<noteq> None \<and> heroLogo p' \<noteq> None
          then Inr (completeTransition data p')
          else Inr p')"

text \<open>
  \<^verbatim>\<open>new LogoTransition()\<close> on \<^verbatim>\<open>DOMContentLoaded\<close>. An exception thrown by
  \<^verbatim>\<open>checkIncomingTransition\<close> leaves \<^verbatim>\<open>init\<close>, so the listeners are not attached. The
  debug panel and the keyboard shortcut touch nothing of the state modelled here.
\<close>

definition LogoTransition :: "int \<Rightarrow> document \<Rightarrow> page" where
  "LogoTransition now d =
     (let p0 = createOverlay (new_instance d)
      in case checkIncomingTransition now p0 of
           Inl e \<Rightarrow> p0\<lparr> uncaught := uncaught p0 @ [e] \<rparr>
         | Inr p1 \<Rightarrow> p1\<lparr> listening := True \<rparr>)"

text \<open>\<^verbatim>\<open>previewTransition\<close> up to its first \<^verbatim>\<open>await\<close>.\<close>

definition previewTransition :: "link \<Rightarrow> page \<Rightarrow> page" where
  "previewTransition lnk p =
     (case getServiceData lnk of
        Inl e \<Rightarrow> p\<lparr> uncaught := uncaught p @ [e] \<rparr>
      | Inr sd \<Rightarrow>
          let p1 = createTransitionLogo sd p;
              p2 = p1\<lparr> body_transitioning := True, body_background := Str (fillColor sd) \<rparr>
          in animate_logo
               (\<lambda>i. PreviewExpandFinish
                       \<lparr> target = i, from_box = rect_box (rect sd),
                         to_box = expandLogo_target sd (innerWidth p2) (innerHeight p2),
                         duration = 600 \<rparr>) p2)"

text \<open>What runs when a completion signal fires: the continuation of the suspended code.\<close>

fun resume :: "task \<Rightarrow> page \<Rightarrow> page" where
  "resume (ExpandFinish a targetUrl) p =
     p\<lparr> location := (case targetUrl of None \<Rightarrow> ''null'' | Some u \<Rightarrow> u) \<rparr>"
| "resume (SettleDelay data) p =
     (case heroLogo p of None \<Rightarrow> p | Some h \<Rightarrow> shrinkLogo (hero_rect h) data p)"
| "resume (ShrinkFinish a) p = animate_logo FadeFinish p"
| "resume (FadeFinish i) p = completeTransition_reveal p"
| "resume (PreviewExpandFinish a) p =
     p\<lparr> pending := pending p @ [PreviewHold (from_box a) (to_box a)] \<rparr>"
| "resume (PreviewHold fromb tob) p =
     animate_logo
       (\<lambda>i. PreviewShrinkFinish \<lparr> target = i, from_box = tob, to_box = fromb,
                                   duration = 600 \<rparr>) p"
| "resume (PreviewShrinkFinish a) p =
     (cleanup p)\<lparr> body_background := Str [], body_transitioning := False \<rparr>"

text \<open>
  The events after the load: a click on a service link (with the value of
  \<^verbatim>\<open>Date.now()\<close>), a click on the inspector's Preview button for a link, and the firing
  of the \<open>k\<close>-th pending completion signal. The listeners exist once \<^verbatim>\<open>init\<close> has run
  to its end.
\<close>

datatype event = Click link int | Preview link | Finish nat

fun step :: "event \<Rightarrow> page \<Rightarrow> page" where
  "step (Click lnk now) p = (if listening p then clickHandler lnk now p else p)"
| "step (Preview lnk) p = (if listening p then previewTransition lnk p else p)"
| "step (Finish k) p =
     (if k < length (pending p)
      then resume (pending p ! k) (p\<lparr> pending := take k (pending p) @ drop (Suc k) (pending p) \<rparr>)
      else p)"

fun run :: "event list \<Rightarrow> page \<Rightarrow> page" where
  "run [] p = p"
| "run (e # es) p = run es (step e p)"

section \<open>Sample documents and links\<close>

definition sample_rect :: DOMRect where
  "sample_rect = \<lparr> left = 100, top' = 200, width = 64, height = 64 \<rparr>"

definition sample_link :: link where
  "sample_link =
     \<lparr> href = Some ''spotify.html'', data_service = ''spotify'',
       data_color = Some ''#1DB954'', data_scale = Some ''25'',
       data_offsetX = Some ''-30'', data_offsetY = None,
       logo_wrapper = Some \<lparr> svg = Some ''<svg></svg>'', bounding = sample_rect \<rparr> \<rparr>"

definition zero_scale_link :: link where
  "zero_scale_link = sample_link\<lparr> data_scale := Some ''0'' \<rparr>"

definition zero_point_link :: link where
  "zero_point_link = sample_link\<lparr> data_scale := Some ''0.0'', data_color := None \<rparr>"

definition sample_serviceData :: serviceData where
  "sample_serviceData =
     \<lparr> serviceName = ''spotify'', fillColor = ''#1DB954'', svgContent = ''<svg></svg>'',
       rect = sample_rect, scale = Fin 25, offsetX = Fin (- 30), offsetY = Fin 0 \<rparr>"

definition sample_hero :: hero where
  "sample_hero =
     \<lparr> opacity = [], hero_visible = False,
       hero_rect = \<lparr> left = 900, top' = 120, width = 120, height = 120 \<rparr> \<rparr>"

text \<open>The start page: nothing stored, no destination markers.\<close>

definition origin_document :: document where
  "origin_document =
     \<lparr> storage = None, location = ''index.html'', innerWidth = 1920, innerHeight = 1080,
       servicePage = None, heroLogo = None \<rparr>"

text \<open>A service page reached with the record of a click made at time 1000.\<close>

definition destination_document :: document where
  "destination_document =
     \<lparr> storage = Some (handoff_record sample_serviceData 1000), location = ''spotify.html'',
       innerWidth = 1920, innerHeight = 1080,
       servicePage = Some False, heroLogo = Some sample_hero \<rparr>"

text \<open>The same record arriving on a document without the destination markers.\<close>

definition unmarked_document :: document where
  "unmarked_document = destination_document\<lparr> servicePage := None, heroLogo := None \<rparr>"

text \<open>A service page on which the storage key holds text that is not JSON.\<close>

definition corrupt_document :: document where
  "corrupt_document = destination_document\<lparr> storage := Some (NonJsonText ''not json'') \<rparr>"

text \<open>A stored record whose scale is the number 0.\<close>

definition zero_scale_record :: parsed where
  "zero_scale_record =
     Object [(''scale'', Number (Fin 0)), (''offsetX'', Number (Fin 0)),
             (''offsetY'', Number (Fin 0))]"


text \<open>A stored record without a timestamp.\<close>

definition undated_record :: parsed where
  "undated_record = Object [(''fillColor'', Str ''#1DB954''), (''scale'', Number (Fin 25))]"

section \<open>Kinds of events and of pending signals\<close>

fun is_expand :: "task \<Rightarrow> bool" where
  "is_expand (ExpandFinish a u) = True"
| "is_expand _ = False"

fun is_shrink :: "task \<Rightarrow> bool" where
  "is_shrink (SettleDelay d) = True"
| "is_shrink (ShrinkFinish a) = True"
| "is_shrink (FadeFinish i) = True"
| "is_shrink _ = False"

fun is_preview :: "event \<Rightarrow> bool" where
  "is_preview (Preview l) = True"
| "is_preview _ = False"

fun is_finish :: "event \<Rightarrow> bool" where
  "is_finish (Finish k) = True"
| "is_finish _ = False"

text \<open>The storage key holding the JSON text \<^verbatim>\<open>null\<close>, the empty string, and a record without a timestamp.\<close>

definition null_document :: document where
  "null_document = destination_document\<lparr> storage := Some (JsonText (Prim Null)) \<rparr>"

definition empty_text_document :: document where
  "empty_text_document = destination_document\<lparr> storage := Some (NonJsonText []) \<rparr>"

definition undated_document :: document where
  "undated_document = destination_document\<lparr> storage := Some (JsonText undated_record) \<rparr>"

text \<open>The animation that a click on the sample link starts on the start page.\<close>

definition sample_animation :: animation where
  "sample_animation =
     \<lparr> target = 0, from_box = rect_box sample_rect,
       to_box = expandLogo_target sample_serviceData 1920 1080, duration = expandDuration \<rparr>"

text \<open>The start page after the load, and after a click on the sample link at time 1000.\<close>

definition start_page :: page where
  "start_page = LogoTransition 0 origin_document"

definition clicked_page :: page where
  "clicked_page = step (Click sample_link 1000) start_page"

section \<open>Invariants of the overlay\<close>

text \<open>
  On a page where only click-driven transitions run: at most one clone, none unless a
  transition is in flight, and only expand animations pending.
\<close>

definition click_only_inv :: "page \<Rightarrow> bool" where
  "click_only_inv p =
     (length (overlay p) \<le> 1 \<and> (isTransitioning p \<or> overlay p = [])
      \<and> list_all is_expand (pending p))"

text \<open>On a page where only the destination shrink runs.\<close>

definition shrink_only_inv :: "page \<Rightarrow> bool" where
  "shrink_only_inv p = (length (overlay p) \<le> 1 \<and> list_all is_shrink (pending p))"

section \<open>Properties\<close>

subsection \<open>The full-bleed rectangle of the expand phase\<close>


subsection \<open>Resolution of the per-link parameters\<close>

lemma parseFloat_absent: "parseFloat None = NaN"
  by (simp add: parseFloat_def parseFloat_str_def scanDecimal_def scanUnsigned_def
      isDigit_def isWhite_def)

lemma parseFloat_empty: "parseFloat (Some []) = NaN"
  by (simp add: parseFloat_def parseFloat_str_def scanDecimal_def)

text \<open>
  Claim C4, as stated, fails: an attribute \<^verbatim>\<open>data-scale="0"\<close> parses to the number 0,
  and \<^verbatim>\<open>getServiceData\<close> returns the scale 15, not the parsed override.
\<close>

theorem getServiceData_zero_scale_not_override:
  "parseFloat (data_scale zero_scale_link) = Fin 0
   \<and> getServiceData zero_scale_link = Inr (sample_serviceData\<lparr> scale := Fin 15 \<rparr>)"
  by code_simp

text \<open>
  Claim C4, amended. For a link that has a logo wrapper with an \<^verbatim>\<open>svg\<close>,
  \<^verbatim>\<open>getServiceData\<close> returns the scale parsed from \<^verbatim>\<open>data-scale\<close> unless that is NaN or
  0, in which case it returns 15; each offset as parsed unless that is NaN, in which case
  0 (a parsed 0 and the default 0 coincide); and the colour of \<^verbatim>\<open>data-color\<close> unless
  the attribute is missing or empty, in which case \<^verbatim>\<open>#6366f1\<close>. A missing and an empty
  attribute both parse to NaN.
\<close>

theorem getServiceData_fields:
  assumes "logo_wrapper lnk = Some w" and "svg w = Some html"
  shows "getServiceData lnk =
           Inr \<lparr> serviceName = data_service lnk,
                 fillColor = (case data_color lnk of
                                None \<Rightarrow> ''#6366f1''
                              | Some c \<Rightarrow> if c = [] then ''#6366f1'' else c),
                 svgContent = html, rect = bounding w,
                 scale = (if parseFloat (data_scale lnk) = NaN
                             \<or> parseFloat (data_scale lnk) = Fin 0
                          then Fin 15 else parseFloat (data_scale lnk)),
                 offsetX = (if parseFloat (data_offsetX lnk) = NaN then Fin 0
                            else parseFloat (data_offsetX lnk)),
                 offsetY = (if parseFloat (data_offsetY lnk) = NaN then Fin 0
                            else parseFloat (data_offsetY lnk)) \<rparr>
         \<and> parseFloat None = NaN \<and> parseFloat (Some []) = NaN"
  using assms
  by (auto simp add: getServiceData_def js_or_num_def defaults_scale_def defaults_offsetX_def
      defaults_offsetY_def Let_def parseFloat_absent parseFloat_empty split: option.splits)

text \<open>Claim C4, amended, on the sample link: scale 25, horizontal offset -30, no vertical offset.\<close>

theorem getServiceData_fields_witness:
  "logo_wrapper sample_link = Some \<lparr> svg = Some ''<svg></svg>'', bounding = sample_rect \<rparr>
   \<and> svg \<lparr> svg = Some ''<svg></svg>'', bounding = sample_rect \<rparr> = Some ''<svg></svg>''
   \<and> getServiceData sample_link = Inr sample_serviceData"
proof -
  have a: "logo_wrapper sample_link = Some \<lparr> svg = Some ''<svg></svg>'', bounding = sample_rect \<rparr>"
    by (simp add: sample_link_def)
  have b: "svg \<lparr> svg = Some ''<svg></svg>'', bounding = sample_rect \<rparr> = Some ''<svg></svg>''"
    by simp
  have s: "parseFloat (data_scale sample_link) = Fin 25" by code_simp
  have x: "parseFloat (data_offsetX sample_link) = Fin (- 30)" by code_simp
  have y: "parseFloat (data_offsetY sample_link) = NaN" by code_simp
  from getServiceData_fields [OF a b] s x y a b
  show ?thesis by (simp add: sample_link_def sample_serviceData_def)
qed

text \<open>
  Claim C10. When \<^verbatim>\<open>data-scale\<close> parses to the number 0, \<^verbatim>\<open>getServiceData\<close> returns
  the scale 15; and when the stored record has the scale 0, the rectangle that
  \<^verbatim>\<open>createExpandedOverlay\<close> gives the clone has the side 64 * 15 = 960.
\<close>

theorem zero_scale_replaced_by_default:
  "(parseFloat (data_scale lnk) = Fin 0 \<and> getServiceData lnk = Inr sd \<longrightarrow> scale sd = Fin 15)
   \<and> (getprop data ''scale'' = Number (Fin 0) \<longrightarrow>
        css_width (expanded_box data vw vh) = Fin 960
        \<and> css_height (expanded_box data vw vh) = Fin 960
        \<and> css_width (style (last (overlay (createExpandedOverlay data p)))) = Fin 960)"
  by (auto simp add: getServiceData_def js_or_num_def defaults_scale_def Let_def
      expanded_box_def js_or_def createExpandedOverlay_def split: option.splits)

text \<open>Claim C10 on a link with \<^verbatim>\<open>data-scale="0.0"\<close> and on a stored record with scale 0.\<close>

theorem zero_scale_replaced_by_default_witness:
  "parseFloat (data_scale zero_point_link) = Fin 0
   \<and> getServiceData zero_point_link
       = Inr (sample_serviceData\<lparr> scale := Fin 15, fillColor := ''#6366f1'' \<rparr>)
   \<and> scale (sample_serviceData\<lparr> scale := Fin 15, fillColor := ''#6366f1'' \<rparr>) = Fin 15
   \<and> getprop zero_scale_record ''scale'' = Number (Fin 0)
   \<and> css_width (expanded_box zero_scale_record 1920 1080) = Fin 960"
proof -
  have a: "parseFloat (data_scale zero_point_link) = Fin 0" by code_simp
  have b: "getServiceData zero_point_link
             = Inr (sample_serviceData\<lparr> scale := Fin 15, fillColor := ''#6366f1'' \<rparr>)"
    by code_simp
  have c: "getprop zero_scale_record ''scale'' = Number (Fin 0)"
    by (simp add: zero_scale_record_def getprop_def)
  from zero_scale_replaced_by_default
    [of zero_point_link "sample_serviceData\<lparr> scale := Fin 15, fillColor := ''#6366f1'' \<rparr>"
        zero_scale_record 1920 1080] a b c
  show ?thesis by simp
qed

subsection \<open>The rectangle of the shrink phase against that of the expand phase\<close>




subsection \<open>The in-flight guard\<close>

text \<open>
  Claim C6. A click on a service link while \<open>isTransitioning\<close> is true changes nothing:
  no clone is added to the overlay, the storage key is not written, nothing is queued
  and no exception is raised.
\<close>

theorem click_while_transitioning_is_dropped:
  assumes "isTransitioning p"
  shows "clickHandler lnk now p = p
         \<and> step (Click lnk now) p = p
         \<and> overlay (step (Click lnk now) p) = overlay p
         \<and> storage (step (Click lnk now) p) = storage p
         \<and> pending (step (Click lnk now) p) = pending p
         \<and> uncaught (step (Click lnk now) p) = uncaught p"
  using assms by (simp add: clickHandler_def)

text \<open>Claim C6 on the start page, for a second click 200 ms after the first.\<close>

theorem click_while_transitioning_is_dropped_witness:
  "isTransitioning (step (Click sample_link 1000) (LogoTransition 0 origin_document))
   \<and> step (Click zero_scale_link 1200)
        (step (Click sample_link 1000) (LogoTransition 0 origin_document))
       = step (Click sample_link 1000) (LogoTransition 0 origin_document)"
proof -
  have a: "isTransitioning (step (Click sample_link 1000) (LogoTransition 0 origin_document))"
    by code_simp
  from click_while_transitioning_is_dropped [OF a, of zero_scale_link 1200] a
  show ?thesis by simp
qed

subsection \<open>Reading the storage key\<close>

lemma handoff_record_shape:
  "\<exists>kvs. handoff_record sd t0 = JsonText (Object kvs)
         \<and> map_of kvs ''timestamp'' = Some (Number (Fin (of_int t0)))"
  by (simp add: handoff_record_def)

lemma completeTransition_storage: "storage (completeTransition data q) = storage q"
  by (simp add: completeTransition_def createExpandedOverlay_def Let_def)

text \<open>
  Claim C1. When the storage key holds a record with a numeric timestamp \<open>t\<close> (as every
  record written by \<^verbatim>\<open>startTransition\<close> is), the read at time \<open>now\<close> clears the key
  and goes on with the parsed record exactly when \<open>now - t \<le> 3000\<close>; otherwise it goes
  on with nothing, the key being cleared all the same. A second read finds the key
  empty and returns nothing. The record is replayed when it is fresh and both
  destination markers are present.
\<close>

theorem read_clears_and_gates_on_age:
  assumes "storage p = Some (JsonText (Object kvs))"
    and "map_of kvs ''timestamp'' = Some (Number (Fin t))"
  shows "checkIncomingTransition_read now p
           = Inr (p\<lparr> storage := None \<rparr>,
                  if of_int now - t \<le> 3000 then Some (Object kvs) else None)
         \<and> checkIncomingTransition_read now' (p\<lparr> storage := None \<rparr>)
             = Inr (p\<lparr> storage := None \<rparr>, None)
         \<and> checkIncomingTransition now p
             = Inr (if of_int now - t \<le> 3000 \<and> servicePage p \<noteq> None \<and> heroLogo p \<noteq> None
                    then completeTransition (Object kvs) (p\<lparr> storage := None \<rparr>)
                    else p\<lparr> storage := None \<rparr>)
         \<and> storage (completeTransition (Object kvs) (p\<lparr> storage := None \<rparr>)) = None
         \<and> checkIncomingTransition now' (p\<lparr> storage := None \<rparr>) = Inr (p\<lparr> storage := None \<rparr>)"
  using assms
  by (simp add: checkIncomingTransition_read_def checkIncomingTransition_def JSON_parse_def
      nullish_def getprop_def js_sub_def Let_def completeTransition_storage)

text \<open>
  Claim C1 on the record of a click made at time 1000: read at 1500 it is returned, read
  at 4001 it is not, and the key is empty afterwards.
\<close>

theorem read_clears_and_gates_on_age_witness:
  "storage (new_instance destination_document)
     = Some (JsonText (Object
         [(''fillColor'', Str ''#1DB954''), (''serviceName'', Str ''spotify''),
          (''svgContent'', Str ''<svg></svg>''), (''scale'', Number (Fin 25)),
          (''offsetX'', Number (Fin (- 30))), (''offsetY'', Number (Fin 0)),
          (''timestamp'', Number (Fin 1000))]))
   \<and> storage (new_instance destination_document) = Some (handoff_record sample_serviceData 1000)
   \<and> (\<exists>r. checkIncomingTransition_read 1500 (new_instance destination_document)
             = Inr ((new_instance destination_document)\<lparr> storage := None \<rparr>, Some r))
   \<and> checkIncomingTransition_read 4001 (new_instance destination_document)
       = Inr ((new_instance destination_document)\<lparr> storage := None \<rparr>, None)
   \<and> checkIncomingTransition_read 1600 ((new_instance destination_document)\<lparr> storage := None \<rparr>)
       = Inr ((new_instance destination_document)\<lparr> storage := None \<rparr>, None)"
proof -
  let ?kvs = "[(''fillColor'', Str ''#1DB954''), (''serviceName'', Str ''spotify''),
          (''svgContent'', Str ''<svg></svg>''), (''scale'', Number (Fin 25)),
          (''offsetX'', Number (Fin (- 30))), (''offsetY'', Number (Fin 0)),
          (''timestamp'', Number (Fin 1000))]"
  have a: "storage (new_instance destination_document) = Some (JsonText (Object ?kvs))"
    by (simp add: new_instance_def destination_document_def handoff_record_def
        sample_serviceData_def json_number_def is_finite_def)
  have b: "map_of ?kvs ''timestamp'' = Some (Number (Fin 1000))" by simp
  have c: "storage (new_instance destination_document) = Some (handoff_record sample_serviceData 1000)"
    by (simp add: new_instance_def destination_document_def)
  from read_clears_and_gates_on_age [OF a b, of 1500 1600]
       read_clears_and_gates_on_age [OF a b, of 4001 1600] a c
  show ?thesis by simp
qed

text \<open>
  Claim C2, as stated, fails: with text in the storage key that is not JSON, the read
  raises a SyntaxError, the key keeps the text, and \<^verbatim>\<open>init\<close> stops before the click
  listeners are attached.
\<close>

theorem corrupt_storage_raises:
  "storage (new_instance corrupt_document) = Some (NonJsonText ''not json'')
   \<and> checkIncomingTransition_read 1500 (createOverlay (new_instance corrupt_document))
       = Inl SyntaxError
   \<and> checkIncomingTransition 1500 (createOverlay (new_instance corrupt_document)) = Inl SyntaxError
   \<and> storage (LogoTransition 1500 corrupt_document) = Some (NonJsonText ''not json'')
   \<and> uncaught (LogoTransition 1500 corrupt_document) = [SyntaxError]
   \<and> \<not> listening (LogoTransition 1500 corrupt_document)"
  by (simp add: corrupt_document_def destination_document_def new_instance_def createOverlay_def
      checkIncomingTransition_read_def checkIncomingTransition_def JSON_parse_def
      LogoTransition_def)

text \<open>
  Claim C2, amended. Text that is not JSON (the empty string apart) makes the read
  raise a SyntaxError and the JSON text \<^verbatim>\<open>null\<close> a TypeError, in both cases before the
  key is cleared; the exception leaves \<^verbatim>\<open>init\<close>, so the listeners are not attached. The
  empty string is taken as absent and left in place. Every other stored value is cleared
  without an exception, and is dropped only when its timestamp converts to a number
  with \<open>now - timestamp > 3000\<close>: otherwise, a missing or non-numeric timestamp included,
  the function goes on with it.
\<close>

theorem read_of_arbitrary_text:
  "(storage p = Some (NonJsonText s) \<and> s \<noteq> [] \<longrightarrow>
      checkIncomingTransition_read now p = Inl SyntaxError
      \<and> checkIncomingTransition now p = Inl SyntaxError)
   \<and> (storage p = Some (JsonText (Prim Null)) \<longrightarrow>
      checkIncomingTransition_read now p = Inl TypeError
      \<and> checkIncomingTransition now p = Inl TypeError)
   \<and> (storage p = Some (NonJsonText []) \<longrightarrow>
      checkIncomingTransition_read now p = Inr (p, None)
      \<and> checkIncomingTransition now p = Inr p)
   \<and> (storage p = Some (JsonText data) \<and> \<not> nullish data \<longrightarrow>
      checkIncomingTransition_read now p
        = Inr (p\<lparr> storage := None \<rparr>,
               if js_gt (js_sub (Fin (of_int now)) (ToNumber (getprop data ''timestamp'')))
                    (Fin 3000)
               then None else Some data)
      \<and> (\<exists>p'. checkIncomingTransition now p = Inr p' \<and> storage p' = None))
   \<and> (checkIncomingTransition now (createOverlay (new_instance d)) = Inl e \<longrightarrow>
      storage (LogoTransition now d) = storage d
      \<and> uncaught (LogoTransition now d) = [e]
      \<and> \<not> listening (LogoTransition now d))"
  by (auto simp add: checkIncomingTransition_read_def checkIncomingTransition_def JSON_parse_def
      nullish_def Let_def completeTransition_storage LogoTransition_def js_sub_def
      createOverlay_def new_instance_def)

text \<open>
  Claim C2, amended, on the four kinds of stored text: not JSON, \<^verbatim>\<open>null\<close>, empty, and a
  record without a timestamp, which is returned however late it is read.
\<close>

theorem read_of_arbitrary_text_witness:
  "storage (createOverlay (new_instance corrupt_document)) = Some (NonJsonText ''not json'')
   \<and> ''not json'' \<noteq> []
   \<and> checkIncomingTransition 1500 (createOverlay (new_instance corrupt_document)) = Inl SyntaxError
   \<and> \<not> listening (LogoTransition 1500 corrupt_document)
   \<and> storage (new_instance null_document) = Some (JsonText (Prim Null))
   \<and> checkIncomingTransition_read 1500 (new_instance null_document) = Inl TypeError
   \<and> storage (new_instance empty_text_document) = Some (NonJsonText [])
   \<and> checkIncomingTransition_read 1500 (new_instance empty_text_document)
       = Inr (new_instance empty_text_document, None)
   \<and> storage (new_instance undated_document) = Some (JsonText undated_record)
   \<and> \<not> nullish undated_record
   \<and> checkIncomingTransition_read 999999 (new_instance undated_document)
       = Inr ((new_instance undated_document)\<lparr> storage := None \<rparr>, Some undated_record)"
proof -
  have a: "storage (createOverlay (new_instance corrupt_document)) = Some (NonJsonText ''not json'')"
    by (simp add: corrupt_document_def new_instance_def createOverlay_def)
  have a': "''not json'' \<noteq> []" by simp
  have b: "storage (new_instance null_document) = Some (JsonText (Prim Null))"
    by (simp add: null_document_def new_instance_def)
  have c: "storage (new_instance empty_text_document) = Some (NonJsonText [])"
    by (simp add: empty_text_document_def new_instance_def)
  have d: "storage (new_instance undated_document) = Some (JsonText undated_record)"
    by (simp add: undated_document_def new_instance_def)
  have d': "\<not> nullish undated_record" by (simp add: nullish_def undated_record_def)
  have t: "getprop undated_record ''timestamp'' = Undefined"
    by (simp add: getprop_def undated_record_def)
  note r1 = read_of_arbitrary_text
    [where p = "createOverlay (new_instance corrupt_document)" and s = "''not json''"
       and now = 1500 and d = corrupt_document and e = SyntaxError]
  note r2 = read_of_arbitrary_text [where p = "new_instance null_document" and now = 1500]
  note r3 = read_of_arbitrary_text [where p = "new_instance empty_text_document" and now = 1500]
  note r4 = read_of_arbitrary_text
    [where p = "new_instance undated_document" and data = undated_record and now = 999999]
  from r1 a a' have e1: "checkIncomingTransition 1500 (createOverlay (new_instance corrupt_document)) = Inl SyntaxError"
    by blast
  from r1 e1 have e2: "\<not> listening (LogoTransition 1500 corrupt_document)" by blast
  from r2 b have e3: "checkIncomingTransition_read 1500 (new_instance null_document) = Inl TypeError"
    by blast
  from r3 c have e4: "checkIncomingTransition_read 1500 (new_instance empty_text_document)
       = Inr (new_instance empty_text_document, None)" by blast
  from r4 d d' have "checkIncomingTransition_read 999999 (new_instance undated_document)
        = Inr ((new_instance undated_document)\<lparr> storage := None \<rparr>,
               if js_gt (js_sub (Fin (of_int 999999)) (ToNumber (getprop undated_record ''timestamp'')))
                    (Fin 3000)
               then None else Some undated_record)" by blast
  then have e5: "checkIncomingTransition_read 999999 (new_instance undated_document)
       = Inr ((new_instance undated_document)\<lparr> storage := None \<rparr>, Some undated_record)"
    by (simp add: t js_sub_def)
  from a a' b c d d' e1 e2 e3 e4 e5 show ?thesis by blast
qed

subsection \<open>A document without the destination markers\<close>

text \<open>
  Claim C7. On a document that lacks the page container or the hero element, the load
  leaves both elements as they were, creates no clone and arms nothing; and a stored
  record (any stored JSON value other than \<^verbatim>\<open>null\<close>) is removed from the storage key
  without an exception.
\<close>

theorem no_markers_consumes_without_mutation:
  assumes "servicePage d = None \<or> heroLogo d = None"
  shows "heroLogo (LogoTransition now d) = heroLogo d
         \<and> servicePage (LogoTransition now d) = servicePage d
         \<and> overlay (LogoTransition now d) = []
         \<and> transitionLogo (LogoTransition now d) = None
         \<and> pending (LogoTransition now d) = []
         \<and> \<not> body_transitioning (LogoTransition now d)
         \<and> (storage d = Some (JsonText data) \<and> \<not> nullish data \<longrightarrow>
              storage (LogoTransition now d) = None
              \<and> uncaught (LogoTransition now d) = []
              \<and> checkIncomingTransition now (createOverlay (new_instance d))
                   = Inr ((createOverlay (new_instance d))\<lparr> storage := None \<rparr>))"
  using assms
  by (auto simp add: LogoTransition_def checkIncomingTransition_def checkIncomingTransition_read_def
      createOverlay_def new_instance_def JSON_parse_def Let_def
      split: option.splits sum.splits item.splits if_splits)

text \<open>Claim C7 on the record of a click made at time 1000, read at 1500 on a document without markers.\<close>

theorem no_markers_consumes_without_mutation_witness:
  "(servicePage unmarked_document = None \<or> heroLogo unmarked_document = None)
   \<and> storage unmarked_document = Some (handoff_record sample_serviceData 1000)
   \<and> \<not> nullish (Object
         [(''fillColor'', Str ''#1DB954''), (''serviceName'', Str ''spotify''),
          (''svgContent'', Str ''<svg></svg>''), (''scale'', Number (Fin 25)),
          (''offsetX'', Number (Fin (- 30))), (''offsetY'', Number (Fin 0)),
          (''timestamp'', Number (Fin 1000))])
   \<and> storage (LogoTransition 1500 unmarked_document) = None
   \<and> heroLogo (LogoTransition 1500 unmarked_document) = heroLogo unmarked_document
   \<and> overlay (LogoTransition 1500 unmarked_document) = []"
proof -
  let ?data = "Object [(''fillColor'', Str ''#1DB954''), (''serviceName'', Str ''spotify''),
          (''svgContent'', Str ''<svg></svg>''), (''scale'', Number (Fin 25)),
          (''offsetX'', Number (Fin (- 30))), (''offsetY'', Number (Fin 0)),
          (''timestamp'', Number (Fin 1000))]"
  have a: "servicePage unmarked_document = None \<or> heroLogo unmarked_document = None"
    by (simp add: unmarked_document_def)
  have b: "storage unmarked_document = Some (JsonText ?data)"
    by (simp add: unmarked_document_def destination_document_def handoff_record_def
        sample_serviceData_def json_number_def is_finite_def)
  have c: "storage unmarked_document = Some (handoff_record sample_serviceData 1000)"
    by (simp add: unmarked_document_def destination_document_def)
  have d: "\<not> nullish ?data" by (simp add: nullish_def)
  from no_markers_consumes_without_mutation [OF a, of 1500 ?data] a b c d
  show ?thesis by simp
qed

subsection \<open>Navigation after the expand animation\<close>

lemma animate_logo_location: "location (animate_logo k p) = location p"
  by (simp add: animate_logo_def split: option.splits)

lemma animate_logo_pending: "set (pending p) \<subseteq> set (pending (animate_logo k p))"
  by (auto simp add: animate_logo_def split: option.splits)

lemma cleanup_location: "location (cleanup p) = location p"
  by (simp add: cleanup_def Let_def split: option.splits)

lemma cleanup_pending: "pending (cleanup p) = pending p"
  by (simp add: cleanup_def Let_def split: option.splits)

lemma resume_location: "\<not> is_expand t \<Longrightarrow> location (resume t p) = location p"
  by (cases t)
     (simp_all add: animate_logo_location cleanup_location shrinkLogo_def
        completeTransition_reveal_def Let_def split: option.splits)

lemma resume_pending: "set (pending p) \<subseteq> set (pending (resume t p))"
  by (cases t)
     (auto simp add: cleanup_pending shrinkLogo_def completeTransition_reveal_def Let_def
        animate_logo_def split: option.splits)

lemma startTransition_location: "location (startTransition lnk u sd now p) = location p"
  by (simp add: startTransition_def expandLogo_def animate_logo_location
      createTransitionLogo_def Let_def)

lemma startTransition_pending:
  "\<exists>a. pending (startTransition lnk u sd now p) = pending p @ [ExpandFinish a u]"
  by (simp add: startTransition_def expandLogo_def animate_logo_def
      createTransitionLogo_def Let_def)

lemma clickHandler_location: "location (clickHandler lnk now p) = location p"
  by (simp add: clickHandler_def startTransition_location split: sum.splits)

lemma clickHandler_pending: "set (pending p) \<subseteq> set (pending (clickHandler lnk now p))"
proof (cases "getServiceData lnk")
  case (Inl e)
  then show ?thesis by (simp add: clickHandler_def)
next
  case (Inr sd)
  obtain a where "pending (startTransition lnk (href lnk) sd now p) = pending p @ [ExpandFinish a (href lnk)]"
    using startTransition_pending by blast
  with Inr show ?thesis by (auto simp add: clickHandler_def)
qed

lemma previewTransition_location: "location (previewTransition lnk p) = location p"
  by (simp add: previewTransition_def animate_logo_location createTransitionLogo_def Let_def
      split: sum.splits)

lemma previewTransition_pending: "set (pending p) \<subseteq> set (pending (previewTransition lnk p))"
  by (auto simp add: previewTransition_def animate_logo_def createTransitionLogo_def Let_def
      split: sum.splits)

lemma remove_nth_keeps:
  assumes "x \<in> set xs" and "k < length xs" and "xs ! k \<noteq> x"
  shows "x \<in> set (take k xs @ drop (Suc k) xs)"
proof -
  have "set xs = set (take k xs @ xs ! k # drop (Suc k) xs)"
    by (rule arg_cong [where f = set, OF id_take_nth_drop [OF assms(2)]])
  also have "\<dots> = insert (xs ! k) (set (take k xs @ drop (Suc k) xs))"
    by simp
  finally have "x \<in> insert (xs ! k) (set (take k xs @ drop (Suc k) xs))"
    using assms(1) by blast
  with assms(3) show ?thesis by blast
qed

lemma step_keeps_pending:
  assumes "t \<in> set (pending p)"
  shows "t \<in> set (pending (step e p))
         \<or> (\<exists>k. e = Finish k \<and> k < length (pending p) \<and> pending p ! k = t)"
proof (cases e)
  case (Click lnk now)
  with assms clickHandler_pending [of p lnk now] show ?thesis by auto
next
  case (Preview lnk)
  with assms previewTransition_pending [of p lnk] show ?thesis by auto
next
  case (Finish k)
  show ?thesis
  proof (cases "k < length (pending p) \<and> pending p ! k \<noteq> t")
    case True
    let ?q = "p\<lparr> pending := take k (pending p) @ drop (Suc k) (pending p) \<rparr>"
    have "t \<in> set (pending ?q)"
      using remove_nth_keeps [OF assms] True by simp
    then have "t \<in> set (pending (resume (pending p ! k) ?q))"
      using resume_pending [of ?q "pending p ! k"] by blast
    with Finish True show ?thesis by simp
  next
    case False
    with Finish assms show ?thesis by auto
  qed
qed

lemma step_location:
  assumes "location (step e p) \<noteq> location p"
  shows "\<exists>k a url. e = Finish k \<and> k < length (pending p) \<and> pending p ! k = ExpandFinish a url"
proof (cases e)
  case (Click lnk now)
  with assms show ?thesis by (simp add: clickHandler_location split: if_splits)
next
  case (Preview lnk)
  with assms show ?thesis by (simp add: previewTransition_location split: if_splits)
next
  case (Finish k)
  with assms have k: "k < length (pending p)" by (auto split: if_splits)
  have "is_expand (pending p ! k)"
  proof (rule ccontr)
    assume "\<not> is_expand (pending p ! k)"
    then have "location (step e p) = location p"
      using Finish k by (simp add: resume_location)
    with assms show False by simp
  qed
  then obtain a url where "pending p ! k = ExpandFinish a url"
    by (cases "pending p ! k") auto
  with Finish k show ?thesis by blast
qed

text \<open>
  Claim C5. A click never changes the location by itself. The location changes only in
  the step in which the completion signal of an expand animation fires, and in that
  very step it becomes the target of the link. The click that starts a transition
  registers this signal, and no event removes a pending expand signal other than its
  own firing: nothing cancels a transition between its start and the navigation.
\<close>

theorem navigation_only_on_expand_finish:
  "location (step (Click lnk now) p) = location p
   \<and> (location (step e p) \<noteq> location p \<longrightarrow>
        (\<exists>k a url. e = Finish k \<and> k < length (pending p) \<and> pending p ! k = ExpandFinish a url))
   \<and> (k < length (pending p) \<and> pending p ! k = ExpandFinish a url \<longrightarrow>
        location (step (Finish k) p) = (case url of None \<Rightarrow> ''null'' | Some u \<Rightarrow> u))
   \<and> (listening p \<and> \<not> isTransitioning p \<and> getServiceData lnk = Inr sd \<longrightarrow>
        (\<exists>a'. pending (step (Click lnk now) p) = pending p @ [ExpandFinish a' (href lnk)]))
   \<and> (ExpandFinish a url \<in> set (pending p) \<longrightarrow>
        ExpandFinish a url \<in> set (pending (step e p))
        \<or> (\<exists>j. e = Finish j \<and> j < length (pending p) \<and> pending p ! j = ExpandFinish a url))"
proof (intro conjI impI)
  show "location (step (Click lnk now) p) = location p"
    by (simp add: clickHandler_location)
next
  assume "location (step e p) \<noteq> location p"
  then show "\<exists>k a url. e = Finish k \<and> k < length (pending p) \<and> pending p ! k = ExpandFinish a url"
    by (rule step_location)
next
  assume "k < length (pending p) \<and> pending p ! k = ExpandFinish a url"
  then show "location (step (Finish k) p) = (case url of None \<Rightarrow> ''null'' | Some u \<Rightarrow> u)"
    by simp
next
  assume "listening p \<and> \<not> isTransitioning p \<and> getServiceData lnk = Inr sd"
  then show "\<exists>a'. pending (step (Click lnk now) p) = pending p @ [ExpandFinish a' (href lnk)]"
    using startTransition_pending [of lnk "href lnk" sd now p] by (simp add: clickHandler_def)
next
  assume "ExpandFinish a url \<in> set (pending p)"
  then show "ExpandFinish a url \<in> set (pending (step e p))
        \<or> (\<exists>j. e = Finish j \<and> j < length (pending p) \<and> pending p ! j = ExpandFinish a url)"
    by (rule step_keeps_pending)
qed

text \<open>
  Claim C5 on the start page: a click on the sample link registers the expand signal and
  leaves the location alone, a second click does not remove the signal, and its firing
  navigates to the link's target.
\<close>

theorem navigation_only_on_expand_finish_witness:
  "listening start_page \<and> \<not> isTransitioning start_page
   \<and> getServiceData sample_link = Inr sample_serviceData
   \<and> pending clicked_page = [ExpandFinish sample_animation (Some ''spotify.html'')]
   \<and> location clicked_page = ''index.html''
   \<and> location (step (Finish 0) clicked_page) = ''spotify.html''
   \<and> location (step (Finish 0) clicked_page) \<noteq> location clicked_page
   \<and> ExpandFinish sample_animation (Some ''spotify.html'')
        \<in> set (pending (step (Click zero_scale_link 1200) clicked_page))"
proof -
  have h1: "listening start_page" by code_simp
  have h2: "\<not> isTransitioning start_page" by code_simp
  have h3: "getServiceData sample_link = Inr sample_serviceData" by code_simp
  have h4: "pending clicked_page = [ExpandFinish sample_animation (Some ''spotify.html'')]"
    by code_simp
  have h5: "location start_page = ''index.html''" by code_simp
  have h6: "clicked_page = step (Click sample_link 1000) start_page"
    by (simp only: clicked_page_def)
  note t1 = navigation_only_on_expand_finish
    [where p = start_page and lnk = sample_link and now = 1000 and sd = sample_serviceData]
  note t2 = navigation_only_on_expand_finish
    [where p = clicked_page and k = 0 and a = sample_animation
       and url = "Some ''spotify.html''" and e = "Click zero_scale_link 1200"]
  note t3 = navigation_only_on_expand_finish [where p = clicked_page and e = "Finish 0"]
  from t1 have "location (step (Click sample_link 1000) start_page) = location start_page"
    by blast
  then have c1: "location clicked_page = ''index.html''"
    by (simp only: h5 h6 [symmetric])
  have pre: "0 < length (pending clicked_page)
             \<and> pending clicked_page ! 0 = ExpandFinish sample_animation (Some ''spotify.html'')"
    by (simp only: h4, simp)
  from t2 pre have "location (step (Finish 0) clicked_page)
                      = (case Some ''spotify.html'' of None \<Rightarrow> ''null'' | Some u \<Rightarrow> u)"
    by blast
  then have c2: "location (step (Finish 0) clicked_page) = ''spotify.html''"
    by (simp only: option.case)
  have c3: "location (step (Finish 0) clicked_page) \<noteq> location clicked_page"
    by (simp only: c1 c2, simp)
  from t3 c3 have "\<exists>k a url. Finish 0 = Finish k \<and> k < length (pending clicked_page)
                     \<and> pending clicked_page ! k = ExpandFinish a url"
    by blast
  have mem: "ExpandFinish sample_animation (Some ''spotify.html'') \<in> set (pending clicked_page)"
    by (simp only: h4, simp)
  from t2 mem have "ExpandFinish sample_animation (Some ''spotify.html'')
                      \<in> set (pending (step (Click zero_scale_link 1200) clicked_page))
                    \<or> (\<exists>j. Click zero_scale_link 1200 = Finish j \<and> j < length (pending clicked_page)
                          \<and> pending clicked_page ! j = ExpandFinish sample_animation (Some ''spotify.html''))"
    by blast
  then have c4: "ExpandFinish sample_animation (Some ''spotify.html'')
                   \<in> set (pending (step (Click zero_scale_link 1200) clicked_page))"
    by (simp only: event.distinct, simp)
  from h1 h2 h3 h4 c1 c2 c3 c4 show ?thesis by blast
qed

subsection \<open>The number of overlay clones\<close>

lemma list_all_remove_nth:
  "list_all P xs \<Longrightarrow> list_all P (take k xs @ drop (Suc k) xs)"
  by (auto simp add: list_all_iff dest: in_set_takeD in_set_dropD)

lemma list_all_nth: "list_all P xs \<Longrightarrow> k < length xs \<Longrightarrow> P (xs ! k)"
  by (simp add: list_all_length)

lemma cleanup_overlay_length: "length (overlay (cleanup p)) \<le> length (overlay p)"
  by (simp add: cleanup_def Let_def split: option.splits)

lemma clickHandler_click_only_inv:
  assumes "click_only_inv p"
  shows "click_only_inv (clickHandler lnk now p)"
proof (cases "isTransitioning p")
  case True
  with assms show ?thesis by (simp add: clickHandler_def)
next
  case False
  with assms have e: "overlay p = []" by (simp add: click_only_inv_def)
  show ?thesis
  proof (cases "getServiceData lnk")
    case (Inl err)
    with False assms show ?thesis by (simp add: clickHandler_def click_only_inv_def)
  next
    case (Inr sd)
    with False assms e show ?thesis
      by (simp add: clickHandler_def click_only_inv_def startTransition_def expandLogo_def
          animate_logo_def createTransitionLogo_def Let_def)
  qed
qed

lemma resume_expand_click_only_inv:
  assumes "click_only_inv q" and "is_expand t"
  shows "click_only_inv (resume t q)"
  using assms by (cases t) (simp_all add: click_only_inv_def)

lemma step_click_only_inv:
  assumes "click_only_inv p" and "\<not> is_preview e"
  shows "click_only_inv (step e p)"
proof (cases e)
  case (Click lnk now)
  with assms clickHandler_click_only_inv [of p lnk now] show ?thesis by simp
next
  case (Preview lnk)
  with assms show ?thesis by simp
next
  case (Finish k)
  show ?thesis
  proof (cases "k < length (pending p)")
    case True
    let ?q = "p\<lparr> pending := take k (pending p) @ drop (Suc k) (pending p) \<rparr>"
    from assms(1) have all: "list_all is_expand (pending p)" by (simp add: click_only_inv_def)
    from all True have t: "is_expand (pending p ! k)" by (rule list_all_nth)
    from assms(1) list_all_remove_nth [OF all, of k] have "click_only_inv ?q"
      by (simp add: click_only_inv_def)
    from resume_expand_click_only_inv [OF this t] Finish True show ?thesis by simp
  next
    case False
    with Finish assms show ?thesis by simp
  qed
qed

lemma run_click_only_inv:
  "click_only_inv p \<Longrightarrow> list_all (\<lambda>e. \<not> is_preview e) es \<Longrightarrow> click_only_inv (run es p)"
proof (induction es arbitrary: p)
  case Nil
  then show ?case by simp
next
  case (Cons e es)
  from Cons.prems have "click_only_inv (step e p)" by (simp add: step_click_only_inv)
  with Cons show ?case by simp
qed

lemma LogoTransition_click_only_inv:
  assumes "pending (LogoTransition now d) = []"
  shows "click_only_inv (LogoTransition now d)"
  using assms
  by (auto simp add: LogoTransition_def checkIncomingTransition_def checkIncomingTransition_read_def
      createOverlay_def new_instance_def click_only_inv_def Let_def completeTransition_def createExpandedOverlay_def
      split: option.splits sum.splits if_splits prod.splits)

lemma resume_shrink_only_inv:
  assumes "shrink_only_inv q" and "is_shrink t"
  shows "shrink_only_inv (resume t q)"
proof (cases t)
  case (FadeFinish i)
  have "length (overlay (cleanup (q\<lparr> heroLogo := map_option (\<lambda>h. h\<lparr> hero_visible := True, opacity := [] \<rparr>) (heroLogo q),
                  servicePage := map_option (\<lambda>_. True) (servicePage q),
                  body_background := Str [] \<rparr>))) \<le> length (overlay q)"
    using cleanup_overlay_length
      [of "q\<lparr> heroLogo := map_option (\<lambda>h. h\<lparr> hero_visible := True, opacity := [] \<rparr>) (heroLogo q),
                  servicePage := map_option (\<lambda>_. True) (servicePage q),
                  body_background := Str [] \<rparr>"] by simp
  with FadeFinish assms show ?thesis
    by (simp add: shrink_only_inv_def completeTransition_reveal_def Let_def cleanup_pending)
qed (use assms in \<open>auto simp add: shrink_only_inv_def shrinkLogo_def animate_logo_def
       split: option.splits\<close>)

lemma step_shrink_only_inv:
  assumes "shrink_only_inv p" and "is_finish e"
  shows "shrink_only_inv (step e p)"
proof (cases e)
  case (Finish k)
  show ?thesis
  proof (cases "k < length (pending p)")
    case True
    let ?q = "p\<lparr> pending := take k (pending p) @ drop (Suc k) (pending p) \<rparr>"
    from assms(1) have all: "list_all is_shrink (pending p)" by (simp add: shrink_only_inv_def)
    from all True have t: "is_shrink (pending p ! k)" by (rule list_all_nth)
    from assms(1) list_all_remove_nth [OF all, of k] have "shrink_only_inv ?q"
      by (simp add: shrink_only_inv_def)
    from resume_shrink_only_inv [OF this t] Finish True show ?thesis by simp
  next
    case False
    with Finish assms show ?thesis by simp
  qed
qed (use assms in auto)

lemma run_shrink_only_inv:
  "shrink_only_inv p \<Longrightarrow> list_all is_finish es \<Longrightarrow> shrink_only_inv (run es p)"
proof (induction es arbitrary: p)
  case Nil
  then show ?case by simp
next
  case (Cons e es)
  from Cons.prems have "shrink_only_inv (step e p)" by (simp add: step_shrink_only_inv)
  with Cons show ?case by simp
qed

lemma LogoTransition_shrink_only_inv: "shrink_only_inv (LogoTransition now d)"
  by (auto simp add: LogoTransition_def checkIncomingTransition_def checkIncomingTransition_read_def
      createOverlay_def new_instance_def shrink_only_inv_def Let_def completeTransition_def
      createExpandedOverlay_def
      split: option.splits sum.splits if_splits prod.splits)

lemma armed_load:
  assumes "storage d = Some (JsonText (Object kvs))"
    and "map_of kvs ''timestamp'' = Some (Number (Fin t))"
    and "of_int now - t \<le> 3000"
    and "servicePage d \<noteq> None" and "heroLogo d \<noteq> None"
  shows "LogoTransition now d
           = (completeTransition (Object kvs) ((createOverlay (new_instance d))\<lparr> storage := None \<rparr>))
               \<lparr> listening := True \<rparr>"
  using assms
  by (simp add: LogoTransition_def checkIncomingTransition_def checkIncomingTransition_read_def
      JSON_parse_def nullish_def getprop_def js_sub_def Let_def createOverlay_def new_instance_def)

lemma shrink_clone_destroyed:
  assumes "storage d = Some (JsonText (Object kvs))"
    and "map_of kvs ''timestamp'' = Some (Number (Fin t))"
    and "of_int now - t \<le> 3000"
    and "servicePage d \<noteq> None" and "heroLogo d \<noteq> None"
  shows "length (overlay (LogoTransition now d)) = 1
         \<and> overlay (run [Finish 0, Finish 0, Finish 0] (LogoTransition now d)) = []
         \<and> transitionLogo (run [Finish 0, Finish 0, Finish 0] (LogoTransition now d)) = None"
proof -
  from assms(5) obtain h where h: "heroLogo d = Some h" by auto
  show ?thesis
    unfolding armed_load [OF assms]
    using h
    by (simp add: completeTransition_def createExpandedOverlay_def createOverlay_def
        new_instance_def Let_def shrinkLogo_def animate_logo_def completeTransition_reveal_def
        cleanup_def)
qed

text \<open>
  Claim C9, as stated, fails. Two clicks on the inspector's Preview button put two clones
  in the overlay, and so does a click on a service link while the destination shrink is
  running; and the clone of a click-driven expand is still attached and referenced after
  its animation has finished and the navigation has started.
\<close>

theorem overlapping_clones:
  "length (overlay (run [Preview sample_link, Preview sample_link]
                        (LogoTransition 0 origin_document))) = 2
   \<and> length (overlay (run [Click sample_link 1600] (LogoTransition 1500 destination_document))) = 2
   \<and> length (overlay (run [Click sample_link 1000, Finish 0] (LogoTransition 0 origin_document))) = 1
   \<and> transitionLogo (run [Click sample_link 1000, Finish 0] (LogoTransition 0 origin_document)) = Some 0
   \<and> location (run [Click sample_link 1000, Finish 0] (LogoTransition 0 origin_document)) = ''spotify.html''"
  by code_simp

text \<open>
  Claim C9, amended. Where no shrink was armed at load and the inspector preview is not
  used, at most one clone exists at every reachable point; the same holds where only
  completion signals follow the load. \<^verbatim>\<open>cleanup\<close> detaches the referenced clone, clears
  the reference and resets the in-flight flag, and the destination shrink ends with it:
  after its three signals the overlay is empty. The end of a click-driven expand leaves
  the clone attached and referenced.
\<close>

theorem at_most_one_clone:
  "(pending (LogoTransition now d) = [] \<and> list_all (\<lambda>e. \<not> is_preview e) es \<longrightarrow>
      length (overlay (run es (LogoTransition now d))) \<le> 1)
   \<and> (list_all is_finish es \<longrightarrow> length (overlay (run es (LogoTransition now d))) \<le> 1)
   \<and> transitionLogo (cleanup p) = None
   \<and> \<not> isTransitioning (cleanup p)
   \<and> overlay (cleanup p) = filter (\<lambda>c. Some (cid c) \<noteq> transitionLogo p) (overlay p)
   \<and> (storage d = Some (JsonText (Object kvs)) \<and> map_of kvs ''timestamp'' = Some (Number (Fin t))
        \<and> of_int now - t \<le> 3000 \<and> servicePage d \<noteq> None \<and> heroLogo d \<noteq> None \<longrightarrow>
        length (overlay (LogoTransition now d)) = 1
        \<and> overlay (run [Finish 0, Finish 0, Finish 0] (LogoTransition now d)) = []
        \<and> transitionLogo (run [Finish 0, Finish 0, Finish 0] (LogoTransition now d)) = None)
   \<and> overlay (resume (ExpandFinish a u) p) = overlay p
   \<and> transitionLogo (resume (ExpandFinish a u) p) = transitionLogo p"
proof (intro conjI impI)
  assume "pending (LogoTransition now d) = [] \<and> list_all (\<lambda>e. \<not> is_preview e) es"
  then have "click_only_inv (run es (LogoTransition now d))"
    by (simp add: run_click_only_inv LogoTransition_click_only_inv)
  then show "length (overlay (run es (LogoTransition now d))) \<le> 1"
    by (simp add: click_only_inv_def)
next
  assume "list_all is_finish es"
  then have "shrink_only_inv (run es (LogoTransition now d))"
    by (simp add: run_shrink_only_inv LogoTransition_shrink_only_inv)
  then show "length (overlay (run es (LogoTransition now d))) \<le> 1"
    by (simp add: shrink_only_inv_def)
next
  show "transitionLogo (cleanup p) = None"
    by (simp add: cleanup_def Let_def split: option.splits)
next
  show "\<not> isTransitioning (cleanup p)"
    by (simp add: cleanup_def Let_def split: option.splits)
next
  show "overlay (cleanup p) = filter (\<lambda>c. Some (cid c) \<noteq> transitionLogo p) (overlay p)"
    by (simp add: cleanup_def Let_def split: option.splits)
next
  assume a: "storage d = Some (JsonText (Object kvs)) \<and> map_of kvs ''timestamp'' = Some (Number (Fin t))
        \<and> of_int now - t \<le> 3000 \<and> servicePage d \<noteq> None \<and> heroLogo d \<noteq> None"
  then have "length (overlay (LogoTransition now d)) = 1
         \<and> overlay (run [Finish 0, Finish 0, Finish 0] (LogoTransition now d)) = []
         \<and> transitionLogo (run [Finish 0, Finish 0, Finish 0] (LogoTransition now d)) = None"
    using shrink_clone_destroyed [of d kvs t now] by blast
  then show "length (overlay (LogoTransition now d)) = 1"
    and "overlay (run [Finish 0, Finish 0, Finish 0] (LogoTransition now d)) = []"
    and "transitionLogo (run [Finish 0, Finish 0, Finish 0] (LogoTransition now d)) = None"
    by simp_all
next
  show "overlay (resume (ExpandFinish a u) p) = overlay p" by simp
next
  show "transitionLogo (resume (ExpandFinish a u) p) = transitionLogo p" by simp
qed

text \<open>
  Claim C9, amended, on the start page with two clicks and a completion signal, and on
  the destination page with the record of a click made at time 1000, read at 1500.
\<close>

theorem at_most_one_clone_witness:
  "pending (LogoTransition 0 origin_document) = []
   \<and> list_all (\<lambda>e. \<not> is_preview e) [Click sample_link 1000, Click zero_scale_link 1200, Finish 0]
   \<and> length (overlay (run [Click sample_link 1000, Click zero_scale_link 1200, Finish 0]
                          (LogoTransition 0 origin_document))) \<le> 1
   \<and> list_all is_finish [Finish 0, Finish 0]
   \<and> length (overlay (run [Finish 0, Finish 0] (LogoTransition 1500 destination_document))) \<le> 1
   \<and> storage destination_document = Some (handoff_record sample_serviceData 1000)
   \<and> real_of_int 1500 - 1000 \<le> 3000
   \<and> servicePage destination_document \<noteq> None \<and> heroLogo destination_document \<noteq> None
   \<and> length (overlay (LogoTransition 1500 destination_document)) = 1
   \<and> overlay (run [Finish 0, Finish 0, Finish 0] (LogoTransition 1500 destination_document)) = []"
proof -
  let ?kvs = "[(''fillColor'', Str ''#1DB954''), (''serviceName'', Str ''spotify''),
          (''svgContent'', Str ''<svg></svg>''), (''scale'', Number (Fin 25)),
          (''offsetX'', Number (Fin (- 30))), (''offsetY'', Number (Fin 0)),
          (''timestamp'', Number (Fin 1000))]"
  have h1: "pending (LogoTransition 0 origin_document) = []" by code_simp
  have h2: "list_all (\<lambda>e. \<not> is_preview e) [Click sample_link 1000, Click zero_scale_link 1200, Finish 0]"
    by simp
  have h3: "list_all is_finish [Finish 0, Finish 0]" by simp
  have h4: "storage destination_document = Some (JsonText (Object ?kvs))"
    by (simp add: destination_document_def handoff_record_def sample_serviceData_def
        json_number_def is_finite_def)
  have h4': "storage destination_document = Some (handoff_record sample_serviceData 1000)"
    by (simp add: destination_document_def)
  have h5: "map_of ?kvs ''timestamp'' = Some (Number (Fin 1000))" by simp
  have h6: "real_of_int 1500 - 1000 \<le> 3000" by simp
  have h7: "servicePage destination_document \<noteq> None" by (simp add: destination_document_def)
  have h8: "heroLogo destination_document \<noteq> None" by (simp add: destination_document_def)
  note t1 = at_most_one_clone
    [where now = 0 and d = origin_document
       and es = "[Click sample_link 1000, Click zero_scale_link 1200, Finish 0]"]
  note t2 = at_most_one_clone
    [where now = 1500 and d = destination_document and es = "[Finish 0, Finish 0]"
       and kvs = ?kvs and t = 1000]
  from t1 h1 h2 have c1: "length (overlay (run [Click sample_link 1000, Click zero_scale_link 1200, Finish 0]
                          (LogoTransition 0 origin_document))) \<le> 1" by blast
  from t2 h3 have c2: "length (overlay (run [Finish 0, Finish 0] (LogoTransition 1500 destination_document))) \<le> 1"
    by blast
  from t2 h4 h5 h6 h7 h8 have c3: "length (overlay (LogoTransition 1500 destination_document)) = 1
        \<and> overlay (run [Finish 0, Finish 0, Finish 0] (LogoTransition 1500 destination_document)) = []"
    by blast
  from h1 h2 h3 h4' h6 h7 h8 c1 c2 c3 show ?thesis by blast
qed

end
